theory Spec2Isabelle
  imports Complex_Main
begin

section \<open>Python values used by the program\<close>

text \<open>
  Exceptions of the Python run time become values. \<open>ValueError\<close> carries the literal
  that \<open>int()\<close> rejected and \<open>KeyError\<close> the missing key, as their messages do;
  \<open>IndexError\<close> carries nothing.
\<close>

datatype error = IndexError | ValueError string | KeyError string | IOError

text \<open>
  Text is a list of 8-bit characters. \<open>is_space\<close> is the whitespace of \<open>str.split\<close>
  and \<open>str.strip\<close> in that range: TAB, LF, VT, FF, CR, FS, GS, RS, US, the blank,
  NEL and the no-break space.
\<close>

definition is_space :: "char \<Rightarrow> bool" where
  "is_space c = (c \<in> set [CHR 0x09, CHR 0x0A, CHR 0x0B, CHR 0x0C, CHR 0x0D,
                           CHR 0x1C, CHR 0x1D, CHR 0x1E, CHR 0x1F, CHR 0x20,
                           CHR 0x85, CHR 0xA0])"

definition strip :: "string \<Rightarrow> string" where
  "strip s = rev (dropWhile is_space (rev (dropWhile is_space s)))"

text \<open>\<open>split_aux cur s\<close>: the tokens of \<open>s\<close>, \<open>cur\<close> being the token under way.\<close>

fun split_aux :: "string \<Rightarrow> string \<Rightarrow> string list" where
  "split_aux cur [] = (if cur = [] then [] else [cur])"
| "split_aux cur (c # cs) =
     (if is_space c then (if cur = [] then split_aux [] cs else cur # split_aux [] cs)
      else split_aux (cur @ [c]) cs)"

definition split :: "string \<Rightarrow> string list" where
  "split s = split_aux [] s"

definition startswith :: "string \<Rightarrow> string \<Rightarrow> bool" where
  "startswith s p = (take (length p) s = p)"

text \<open>\<open>parts[i]\<close>: an index past the end raises \<open>IndexError\<close>.\<close>

definition item :: "'a list \<Rightarrow> nat \<Rightarrow> error + 'a" where
  "item xs i = (if i < length xs then Inr (xs ! i) else Inl IndexError)"

text \<open>\<open>" ".join(ts)\<close>\<close>

fun join_sp :: "string list \<Rightarrow> string" where
  "join_sp [] = []"
| "join_sp [t] = t"
| "join_sp (t # u # ts) = t @ '' '' @ join_sp (u # ts)"

subsection \<open>\<open>int()\<close> on a string and \<open>str()\<close> on an integer\<close>

definition is_digit :: "char \<Rightarrow> bool" where
  "is_digit c = (c \<in> set ''0123456789'')"

definition digit_val :: "char \<Rightarrow> nat" where
  "digit_val c = of_char c - 48"

text \<open>
  The digits after the first one, read left to right; one underscore is allowed
  between two digits, as in Python's integer literals.
\<close>

fun parse_digits :: "nat \<Rightarrow> string \<Rightarrow> nat option" where
  "parse_digits acc [] = Some acc"
| "parse_digits acc [c] = (if is_digit c then Some (acc * 10 + digit_val c) else None)"
| "parse_digits acc (c # d # ds) =
     (if is_digit c then parse_digits (acc * 10 + digit_val c) (d # ds)
      else if c = CHR ''_'' \<and> is_digit d then parse_digits (acc * 10 + digit_val d) ds
      else None)"

definition parse_nat :: "string \<Rightarrow> nat option" where
  "parse_nat s = (case s of [] \<Rightarrow> None
                  | c # cs \<Rightarrow> if is_digit c then parse_digits (digit_val c) cs else None)"

definition parse_signed :: "string \<Rightarrow> int option" where
  "parse_signed s = (case s of [] \<Rightarrow> None
       | c # cs \<Rightarrow> if c = CHR ''-'' then map_option (\<lambda>n. - int n) (parse_nat cs)
                  else if c = CHR ''+'' then map_option int (parse_nat cs)
                  else map_option int (parse_nat s))"

text \<open>\<open>int(s)\<close>: surrounding whitespace is dropped; anything but a literal raises.\<close>

definition py_int :: "string \<Rightarrow> error + int" where
  "py_int s = (case parse_signed (strip s) of None \<Rightarrow> Inl (ValueError s) | Some n \<Rightarrow> Inr n)"

definition digit_char :: "nat \<Rightarrow> char" where
  "digit_char n = ''0123456789'' ! n"

fun str_nat :: "nat \<Rightarrow> string" where
  "str_nat n = (if n < 10 then [digit_char n] else str_nat (n div 10) @ [digit_char (n mod 10)])"

declare str_nat.simps [simp del]

definition str_int :: "int \<Rightarrow> string" where
  "str_int i = (if i < 0 then CHR ''-'' # str_nat (nat (- i)) else str_nat (nat i))"

text \<open>\<open>int(x)\<close> on a float: truncation towards zero.\<close>

definition int_of_float :: "real \<Rightarrow> int" where
  "int_of_float x = (if 0 \<le> x then \<lfloor>x\<rfloor> else \<lceil>x\<rceil>)"

text \<open>\<open>x % m\<close> on floats, for a positive \<open>m\<close>: the remainder has the sign of \<open>m\<close>.\<close>

definition fmod :: "real \<Rightarrow> real \<Rightarrow> real" where
  "fmod x m = x - m * of_int \<lfloor>x / m\<rfloor>"

section \<open>Wires (\<open>circuit_recognizer.Wire\<close>)\<close>

text \<open>
  Coordinates are the integers the pipeline passes to the constructor. Distances and
  angles are taken in the reals: the model is the exact arithmetic that the double
  precision operations of the source approximate. For \<open>select_starting_point\<close> the two
  agree as long as the sums of squares stay below \<open>2 ^ 52\<close> (coordinates below
  \<open>2 ^ 25\<close> in absolute value): there the sums are doubles, the roots of different
  sums lie more than two rounding errors apart, and equal sums have one and the same
  root. Beyond that range two different sums can have the same double for a root, and
  from \<open>2 ^ 64\<close> on \<open>np.sqrt\<close> raises.
\<close>

record Wire =
  x_start :: int
  y_start :: int
  x_end :: int
  y_end :: int
  orientation :: string

definition select_starting_point :: "int \<Rightarrow> int \<Rightarrow> int \<Rightarrow> int \<Rightarrow> nat" where
  "select_starting_point x1 y1 x2 y2 =
     (if sqrt (of_int (x1\<^sup>2 + y1\<^sup>2)) < sqrt (of_int (x2\<^sup>2 + y2\<^sup>2)) then 1 else 2)"

text \<open>\<open>math.atan2\<close> and \<open>math.degrees\<close>.\<close>

definition atan2 :: "real \<Rightarrow> real \<Rightarrow> real" where
  "atan2 y x =
     (if 0 < x then arctan (y / x)
      else if x < 0 then (if 0 \<le> y then arctan (y / x) + pi else arctan (y / x) - pi)
      else if 0 < y then pi / 2
      else if y < 0 then - (pi / 2)
      else 0)"

definition degrees :: "real \<Rightarrow> real" where
  "degrees r = r * 180 / pi"

definition slope_as_angle :: "int \<Rightarrow> int \<Rightarrow> int \<Rightarrow> int \<Rightarrow> real" where
  "slope_as_angle xs ys xe ye =
     fmod (degrees (atan2 (of_int (ys - ye)) (of_int (xs - xe)))) 360"

text \<open>The comparisons of \<open>test_if_wire_is_valid\<close>, on the angle it has computed.\<close>

definition classify_angle :: "real \<Rightarrow> string" where
  "classify_angle slope =
     (let limit = 10 in
      if \<not> (limit < slope \<and> slope \<le> 360 - limit) \<or> (180 - limit \<le> slope \<and> slope < 180 + limit)
        then ''h''
      else if (90 - limit < slope \<and> slope < 90 + limit) \<or> (270 - limit < slope \<and> slope < 270 + limit)
        then ''v''
      else ''o'')"

definition test_if_wire_is_valid :: "int \<Rightarrow> int \<Rightarrow> int \<Rightarrow> int \<Rightarrow> string" where
  "test_if_wire_is_valid xs ys xe ye = classify_angle (slope_as_angle xs ys xe ye)"

text \<open>
  The same test with the angle left to the library: \<open>angle dy dx\<close> stands for the double
  that \<open>math.degrees(math.atan2(dy, dx)) % 360\<close> evaluates to, whatever its rounding.
\<close>

definition test_if_wire_is_valid_with ::
  "(real \<Rightarrow> real \<Rightarrow> real) \<Rightarrow> int \<Rightarrow> int \<Rightarrow> int \<Rightarrow> int \<Rightarrow> string"
where
  "test_if_wire_is_valid_with angle xs ys xe ye =
     classify_angle (angle (of_int (ys - ye)) (of_int (xs - xe)))"

definition Wire_init :: "int \<Rightarrow> int \<Rightarrow> int \<Rightarrow> int \<Rightarrow> Wire" where
  "Wire_init x1 y1 x2 y2 =
     (if select_starting_point x1 y1 x2 y2 = 1
      then \<lparr>x_start = x1, y_start = y1, x_end = x2, y_end = y2,
            orientation = test_if_wire_is_valid x1 y1 x2 y2\<rparr>
      else \<lparr>x_start = x2, y_start = y2, x_end = x1, y_end = y1,
            orientation = test_if_wire_is_valid x2 y2 x1 y1\<rparr>)"

text \<open>The distance of a point to the origin, as \<open>select_starting_point\<close> computes it.\<close>

definition origin_distance :: "int \<Rightarrow> int \<Rightarrow> real" where
  "origin_distance x y = sqrt (of_int (x\<^sup>2 + y\<^sup>2))"

section \<open>The schematic text parser (\<open>asc_to_json_parser.ASCParser\<close>)\<close>

text \<open>Running a step that may raise, then the rest.\<close>

definition bind :: "error + 'a \<Rightarrow> ('a \<Rightarrow> error + 'b) \<Rightarrow> error + 'b" where
  "bind m f = (case m of Inl e \<Rightarrow> Inl e | Inr v \<Rightarrow> f v)"

text \<open>\<open>int(parts[i])\<close>\<close>

definition int_item :: "string list \<Rightarrow> nat \<Rightarrow> error + int" where
  "int_item parts i = bind (item parts i) py_int"

record sheet =
  number :: int
  width :: int
  height :: int

text \<open>
  A component dictionary. \<open>attributes\<close> is a Python dict: an association list in
  insertion order, where storing under a key that is present replaces its value in place.
\<close>

record component =
  comp_id :: string
  comp_type :: string
  comp_x :: int
  comp_y :: int
  rotation :: string
  attributes :: "(string \<times> string) list"

record pwire =
  x1 :: int
  y1 :: int
  x2 :: int
  y2 :: int

record flag =
  flag_x :: int
  flag_y :: int
  net_name :: string

record parser =
  components :: "component list"
  wires :: "pwire list"
  flags :: "flag list"
  version :: "string option"
  sheet :: "sheet option"
  component_counter :: nat

record circuit_data =
  cd_version :: "string option"
  cd_sheet :: "sheet option"
  cd_components :: "component list"
  cd_wires :: "pwire list"
  cd_flags :: "flag list"

definition ASCParser_init :: parser where
  "ASCParser_init = \<lparr>components = [], wires = [], flags = [], version = None, sheet = None,
                      component_counter = 0\<rparr>"

fun dict_set :: "('k \<times> 'v) list \<Rightarrow> 'k \<Rightarrow> 'v \<Rightarrow> ('k \<times> 'v) list" where
  "dict_set [] k v = [(k, v)]"
| "dict_set (p # ps) k v = (if fst p = k then (k, v) # ps else p # dict_set ps k v)"

text \<open>\<open>d.get(k, default)\<close>\<close>

definition dict_get :: "('k \<times> 'v) list \<Rightarrow> 'k \<Rightarrow> 'v \<Rightarrow> 'v" where
  "dict_get d k dflt = (case map_of d k of None \<Rightarrow> dflt | Some v \<Rightarrow> v)"

definition parse_version_line :: "parser \<Rightarrow> string \<Rightarrow> error + parser" where
  "parse_version_line st line =
     bind (item (split line) 1) (\<lambda>v. Inr (st\<lparr>version := Some v\<rparr>))"

definition parse_sheet_line :: "parser \<Rightarrow> string \<Rightarrow> error + parser" where
  "parse_sheet_line st line =
     (let parts = split line in
      bind (int_item parts 1) (\<lambda>n.
      bind (int_item parts 2) (\<lambda>w.
      bind (int_item parts 3) (\<lambda>h.
        Inr (st\<lparr>sheet := Some \<lparr>number = n, width = w, height = h\<rparr>\<rparr>)))))"

definition parse_symbol_line :: "parser \<Rightarrow> string \<Rightarrow> error + component \<times> parser" where
  "parse_symbol_line st line =
     (let parts = split line in
      bind (item parts 1) (\<lambda>component_type.
      bind (int_item parts 2) (\<lambda>x.
      bind (int_item parts 3) (\<lambda>y.
      bind (item parts 4) (\<lambda>rot.
        let st' = st\<lparr>component_counter := component_counter st + 1\<rparr> in
        Inr (\<lparr>comp_id = ''comp_'' @ str_nat (component_counter st'),
              comp_type = component_type, comp_x = x, comp_y = y, rotation = rot,
              attributes = []\<rparr>, st'))))))"

definition add_symattr_to_component :: "component \<Rightarrow> string \<Rightarrow> error + component" where
  "add_symattr_to_component c line =
     (let parts = split line in
      bind (item parts 1) (\<lambda>attr_type.
        let attr_value = (if length parts > 2 then join_sp (drop 2 parts) else []) in
        if attr_type = ''InstName''
        then Inr (c\<lparr>attributes := dict_set (attributes c) ''name'' attr_value\<rparr>)
        else Inr (c\<lparr>attributes := dict_set (attributes c) attr_type attr_value\<rparr>)))"

definition parse_wire_line :: "string \<Rightarrow> error + pwire" where
  "parse_wire_line line =
     (let parts = split line in
      bind (int_item parts 1) (\<lambda>a.
      bind (int_item parts 2) (\<lambda>b.
      bind (int_item parts 3) (\<lambda>c.
      bind (int_item parts 4) (\<lambda>d.
        Inr \<lparr>x1 = a, y1 = b, x2 = c, y2 = d\<rparr>)))))"

definition parse_flag_line :: "string \<Rightarrow> error + flag" where
  "parse_flag_line line =
     (let parts = split line in
      bind (int_item parts 1) (\<lambda>x.
      bind (int_item parts 2) (\<lambda>y.
      bind (item parts 3) (\<lambda>name.
        Inr \<lparr>flag_x = x, flag_y = y, net_name = name\<rparr>))))"

text \<open>The test of the inner loop: \<open>lines[i].strip().startswith("SYMATTR")\<close>.\<close>

definition is_symattr :: "string \<Rightarrow> bool" where
  "is_symattr l = startswith (strip l) ''SYMATTR''"

text \<open>The inner loop over the attribute lines that follow a symbol line.\<close>

fun add_symattrs :: "component \<Rightarrow> string list \<Rightarrow> error + component" where
  "add_symattrs c [] = Inr c"
| "add_symattrs c (l # ls) =
     (case add_symattr_to_component c (strip l) of
        Inl e \<Rightarrow> Inl e
      | Inr c' \<Rightarrow> add_symattrs c' ls)"

text \<open>
  The outer loop of \<open>parse\<close>, on the lines that \<open>readlines\<close> returned. After a
  symbol line the inner loop takes the longest run of attribute lines, and the outer
  loop goes on behind it.
\<close>

function parse_loop :: "parser \<Rightarrow> string list \<Rightarrow> error + parser" where
  "parse_loop st [] = Inr st"
| "parse_loop st (l # ls) =
     (let line = strip l in
      if startswith line ''Version'' then
        (case parse_version_line st line of
           Inl e \<Rightarrow> Inl e
         | Inr st' \<Rightarrow> parse_loop st' ls)
      else if startswith line ''SHEET'' then
        (case parse_sheet_line st line of
           Inl e \<Rightarrow> Inl e
         | Inr st' \<Rightarrow> parse_loop st' ls)
      else if startswith line ''SYMBOL'' then
        (case parse_symbol_line st line of
           Inl e \<Rightarrow> Inl e
         | Inr (c, st') \<Rightarrow>
            (case add_symattrs c (takeWhile is_symattr ls) of
               Inl e \<Rightarrow> Inl e
             | Inr c' \<Rightarrow>
                parse_loop (st'\<lparr>components := components st' @ [c']\<rparr>)
                  (dropWhile is_symattr ls)))
      else if startswith line ''WIRE'' then
        (case parse_wire_line line of
           Inl e \<Rightarrow> Inl e
         | Inr w \<Rightarrow> parse_loop (st\<lparr>wires := wires st @ [w]\<rparr>) ls)
      else if startswith line ''FLAG'' then
        (case parse_flag_line line of
           Inl e \<Rightarrow> Inl e
         | Inr f \<Rightarrow> parse_loop (st\<lparr>flags := flags st @ [f]\<rparr>) ls)
      else parse_loop st ls)"
  by pat_completeness auto
termination
  by (relation "measure (\<lambda>(st, ls). length ls)")
     (auto simp: less_Suc_eq_le length_dropWhile_le)

declare parse_loop.simps(2) [simp del]

subsection \<open>Removing duplicates\<close>

text \<open>
  Both loops keep an element when its key is not in \<open>seen\<close> yet, and record the key.
\<close>

fun unique_by :: "('a \<Rightarrow> 'k) \<Rightarrow> 'k set \<Rightarrow> 'a list \<Rightarrow> 'a list" where
  "unique_by key seen [] = []"
| "unique_by key seen (c # cs) =
     (if key c \<in> seen then unique_by key seen cs
      else c # unique_by key (insert (key c) seen) cs)"

definition component_key :: "component \<Rightarrow> string \<times> int \<times> int \<times> string \<times> string" where
  "component_key c =
     (comp_type c, comp_x c, comp_y c, rotation c, dict_get (attributes c) ''name'' [])"

definition remove_duplicate_components :: "parser \<Rightarrow> parser" where
  "remove_duplicate_components st =
     st\<lparr>components := unique_by component_key {} (components st)\<rparr>"

text \<open>Python compares tuples lexicographically; \<open>min\<close> and \<open>max\<close> of two pairs.\<close>

definition tuple_less :: "int \<times> int \<Rightarrow> int \<times> int \<Rightarrow> bool" where
  "tuple_less p q = (fst p < fst q \<or> (fst p = fst q \<and> snd p < snd q))"

definition tuple_min :: "int \<times> int \<Rightarrow> int \<times> int \<Rightarrow> int \<times> int" where
  "tuple_min p q = (if tuple_less q p then q else p)"

definition tuple_max :: "int \<times> int \<Rightarrow> int \<times> int \<Rightarrow> int \<times> int" where
  "tuple_max p q = (if tuple_less p q then q else p)"

definition wire_key :: "pwire \<Rightarrow> (int \<times> int) \<times> (int \<times> int)" where
  "wire_key w = (tuple_min (x1 w, y1 w) (x2 w, y2 w), tuple_max (x1 w, y1 w) (x2 w, y2 w))"

definition remove_duplicate_wires :: "parser \<Rightarrow> parser" where
  "remove_duplicate_wires st = st\<lparr>wires := unique_by wire_key {} (wires st)\<rparr>"

definition to_json :: "parser \<Rightarrow> circuit_data" where
  "to_json st = \<lparr>cd_version = version st, cd_sheet = sheet st,
                 cd_components = components st, cd_wires = wires st, cd_flags = flags st\<rparr>"

text \<open>\<open>parse\<close>, from the lines of the file on.\<close>

definition parse_lines :: "string list \<Rightarrow> error + circuit_data" where
  "parse_lines lines =
     (case parse_loop ASCParser_init lines of
        Inl e \<Rightarrow> Inl e
      | Inr st \<Rightarrow> Inr (to_json (remove_duplicate_wires (remove_duplicate_components st))))"

text \<open>
  \<open>readlines\<close> on a file opened in text mode: \<open>\r\n\<close> and \<open>\r\<close> read as \<open>\n\<close>, and every
  line keeps its \<open>\n\<close>. \<open>readlines_aux cur s\<close>: \<open>cur\<close> is the line under way.
\<close>

fun readlines_aux :: "string \<Rightarrow> string \<Rightarrow> string list" where
  "readlines_aux cur [] = (if cur = [] then [] else [cur])"
| "readlines_aux cur [c] =
     (if c = CHR 0x0A \<or> c = CHR 0x0D then [cur @ [CHR 0x0A]] else [cur @ [c]])"
| "readlines_aux cur (c # d # ds) =
     (if c = CHR 0x0A then (cur @ [CHR 0x0A]) # readlines_aux [] (d # ds)
      else if c = CHR 0x0D then
        (if d = CHR 0x0A then (cur @ [CHR 0x0A]) # readlines_aux [] ds
         else (cur @ [CHR 0x0A]) # readlines_aux [] (d # ds))
      else readlines_aux (cur @ [c]) (d # ds))"

definition readlines :: "string \<Rightarrow> string list" where
  "readlines text = readlines_aux [] text"

definition parse :: "string \<Rightarrow> error + circuit_data" where
  "parse text = parse_lines (readlines text)"

section \<open>Reconstruction from detections (\<open>CircuitRecognitionService\<close>)\<close>

text \<open>
  A data frame of detections of one class: the rows in order, each with its \<open>xcenter\<close>
  and \<open>ycenter\<close> (floats, here reals). The index label of a row is its position, and
  \<open>data.loc[i, "xcenter"] = v\<close> is a list update. \<open>iterrows\<close> hands out the rows as they
  were when the loop started.
\<close>

type_synonym frame = "(real \<times> real) list"

subsection \<open>\<open>_process_junctions\<close>: alignment\<close>

text \<open>The inner loop body: \<open>row\<close> against \<open>row2\<close>, collecting the indices to align.\<close>

definition align_pair ::
  "nat \<Rightarrow> real \<times> real \<Rightarrow> nat \<times> (real \<times> real) \<Rightarrow> nat list \<times> nat list \<Rightarrow> nat list \<times> nat list"
where
  "align_pair index row p acc =
     (case p of (index2, row2) \<Rightarrow>
      case acc of (align_x, align_y) \<Rightarrow>
        if index = index2 then acc
        else if \<bar>fst row - fst row2\<bar> < 50 then (align_x @ [index, index2], align_y)
        else if \<bar>snd row - snd row2\<bar> < 50 then (align_x, align_y @ [index, index2])
        else acc)"

text \<open>
  One round of the outer loop: the two lists are built, then every listed row takes the
  \<open>xcenter\<close> (the \<open>ycenter\<close>) of the row listed first.
\<close>

definition align_row :: "nat \<times> (real \<times> real) \<Rightarrow> frame \<Rightarrow> frame" where
  "align_row p data =
     (case p of (index, row) \<Rightarrow>
      case fold (align_pair index row) (enumerate 0 data) ([], []) of (align_x, align_y) \<Rightarrow>
        let data1 = fold (\<lambda>i d. d[i := (fst (d ! hd align_x), snd (d ! i))]) align_x data;
            data2 = fold (\<lambda>i d. d[i := (fst (d ! i), snd (d ! hd align_y))]) align_y data1
        in data2)"

definition align_junctions :: "frame \<Rightarrow> frame" where
  "align_junctions data = fold align_row (enumerate 0 data) data"

subsection \<open>\<open>_process_junctions\<close>: the 16 by 16 grid\<close>

definition snap16 :: "real \<Rightarrow> real" where
  "snap16 v = (if fmod v 16 = 0 then v else v - fmod v 16)"

definition snap_junctions :: "frame \<Rightarrow> frame" where
  "snap_junctions data = map (apsnd snap16) (map (apfst snap16) data)"

text \<open>The junction frame as the wire loop finds it.\<close>

definition aligned_junctions :: "frame \<Rightarrow> frame" where
  "aligned_junctions data = snap_junctions (align_junctions data)"

subsection \<open>\<open>_process_junctions\<close>: wires between junctions\<close>

record synth =
  s_wires :: "Wire list"
  checked_coordinates :: "(nat \<times> nat) list"
  wires_horizontal :: "Wire list"
  wires_vertical :: "Wire list"

definition wire_pair :: "frame \<Rightarrow> nat \<times> nat \<Rightarrow> synth \<Rightarrow> synth" where
  "wire_pair data p s =
     (case p of (index, index2) \<Rightarrow>
      if (index, index2) \<in> set (checked_coordinates s)
         \<or> (index2, index) \<in> set (checked_coordinates s) then s
      else
        let s1 = s\<lparr>checked_coordinates :=
                     checked_coordinates s @ [(index, index2), (index2, index)]\<rparr>;
            row = data ! index;
            row2 = data ! index2;
            wire = Wire_init (int_of_float (fst row)) (int_of_float (snd row))
                             (int_of_float (fst row2)) (int_of_float (snd row2))
        in if index = index2 then s1
           else if orientation wire = ''o'' then s1
           else if orientation wire = ''h'' then
             s1\<lparr>wires_horizontal := wires_horizontal s1 @ [wire],
                s_wires := s_wires s1 @ [wire]\<rparr>
           else if orientation wire = ''v'' then
             s1\<lparr>wires_vertical := wires_vertical s1 @ [wire],
                s_wires := s_wires s1 @ [wire]\<rparr>
           else s1)"

definition synthesize_wires :: "frame \<Rightarrow> synth" where
  "synthesize_wires data =
     fold (wire_pair data)
       (List.product [0 ..< length data] [0 ..< length data])
       \<lparr>s_wires = [], checked_coordinates = [], wires_horizontal = [], wires_vertical = []\<rparr>"

definition process_junctions :: "frame \<Rightarrow> Wire list \<times> Wire list \<times> Wire list" where
  "process_junctions data =
     (let s = synthesize_wires (aligned_junctions data)
      in (s_wires s, wires_horizontal s, wires_vertical s))"

subsection \<open>\<open>_generate_asc_content\<close>\<close>

text \<open>
  The five symbol loops differ in their constants only: the symbol and the letter of the
  instance name, the tolerance across a vertical and across a horizontal wire, what is
  taken off the wire's coordinate, what is taken off the detection's coordinate, and the
  rotation on a horizontal wire.
\<close>

record kind =
  symbol :: string
  letter :: string
  tol_v :: real
  tol_h :: real
  grid_off :: int
  shift :: int
  rot_h :: string

definition resistor :: kind where
  "resistor = \<lparr>symbol = ''res'', letter = ''R'', tol_v = 35, tol_h = 35,
                grid_off = 16, shift = 0, rot_h = ''R90''\<rparr>"

definition voltage :: kind where
  "voltage = \<lparr>symbol = ''voltage'', letter = ''V'', tol_v = 25, tol_h = 25,
               grid_off = 0, shift = 96, rot_h = ''R270''\<rparr>"

definition capacitor :: kind where
  "capacitor = \<lparr>symbol = ''cap'', letter = ''C'', tol_v = 50, tol_h = 25,
                 grid_off = 16, shift = 0, rot_h = ''R90''\<rparr>"

definition inductor :: kind where
  "inductor = \<lparr>symbol = ''ind'', letter = ''L'', tol_v = 35, tol_h = 35,
                grid_off = 16, shift = 0, rot_h = ''R90''\<rparr>"

text \<open>\<open>"SYMBOL res {} {} R0\nSYMATTR InstName R{}\n".format(x, y, counter)\<close>\<close>

definition symbol_text :: "string \<Rightarrow> int \<Rightarrow> int \<Rightarrow> string \<Rightarrow> string \<Rightarrow> nat \<Rightarrow> string" where
  "symbol_text smb x y rot ltr counter =
     ''SYMBOL '' @ smb @ '' '' @ str_int x @ '' '' @ str_int y @ '' '' @ rot @ [CHR 0x0A]
     @ ''SYMATTR InstName '' @ ltr @ str_nat counter @ [CHR 0x0A]"

definition vertical_test :: "real \<Rightarrow> Wire \<Rightarrow> real \<times> real \<Rightarrow> bool" where
  "vertical_test tol wire row =
     (of_int (y_start wire) < snd row \<and> snd row < of_int (y_end wire)
      \<and> of_int (x_start wire) - tol < fst row \<and> fst row < of_int (x_end wire) + tol)"

definition horizontal_test :: "real \<Rightarrow> Wire \<Rightarrow> real \<times> real \<Rightarrow> bool" where
  "horizontal_test tol wire row =
     (of_int (x_start wire) < fst row \<and> fst row < of_int (x_end wire)
      \<and> of_int (y_start wire) - tol < snd row \<and> snd row < of_int (y_end wire) + tol)"

text \<open>
  The body of the inner loop \<open>for wire in wires\<close>, for one detection row. The state is
  \<open>asc_lines\<close> and \<open>counter\<close>. The new centre written to the frame is read back at once
  in the \<open>format\<close> call and nowhere else, so it appears here as the value itself.
\<close>

definition place_on_wire ::
  "kind \<Rightarrow> Wire list \<Rightarrow> Wire list \<Rightarrow> real \<times> real \<Rightarrow> Wire \<Rightarrow> string list \<times> nat
   \<Rightarrow> string list \<times> nat"
where
  "place_on_wire k wv wh row wire st =
     (case st of (asc_lines, counter) \<Rightarrow>
      if wire \<in> set wv then
        (if vertical_test (tol_v k) wire row then
           (let xcenter = x_start wire - grid_off k;
                text1 = symbol_text (symbol k) xcenter (int_of_float (snd row) - shift k)
                          ''R0'' (letter k) counter
            in (asc_lines @ [text1], counter + 1))
         else st)
      else if wire \<in> set wh then
        (if horizontal_test (tol_h k) wire row then
           (let ycenter = y_start wire - grid_off k;
                text2 = symbol_text (symbol k) (int_of_float (fst row) - shift k) ycenter
                          (rot_h k) (letter k) counter
            in (asc_lines @ [text2], counter + 1))
         else st)
      else st)"

text \<open>One symbol loop: \<open>counter = 1\<close>, then every row against every wire.\<close>

definition place_kind ::
  "kind \<Rightarrow> frame \<Rightarrow> Wire list \<Rightarrow> Wire list \<Rightarrow> Wire list \<Rightarrow> string list \<Rightarrow> string list"
where
  "place_kind k data ws wh wv asc_lines =
     fst (fold (\<lambda>row. fold (place_on_wire k wv wh row) ws) data (asc_lines, 1))"

text \<open>A loop whose body may raise.\<close>

fun fold_err :: "('a \<Rightarrow> 's \<Rightarrow> error + 's) \<Rightarrow> 'a list \<Rightarrow> 's \<Rightarrow> error + 's" where
  "fold_err f [] s = Inr s"
| "fold_err f (x # xs) s = (case f x s of Inl e \<Rightarrow> Inl e | Inr s' \<Rightarrow> fold_err f xs s')"

text \<open>
  The ground loop. After the flag line the connector line reads the column
  \<open>"y_center"\<close>, which the frame does not have (its column is \<open>"ycenter"\<close>): the
  lookup raises \<open>KeyError\<close>.
\<close>

definition ground_on_wire ::
  "Wire list \<Rightarrow> real \<times> real \<Rightarrow> Wire \<Rightarrow> string list \<Rightarrow> error + string list"
where
  "ground_on_wire wh row wire asc_lines =
     (if wire \<in> set wh then
        (if horizontal_test 200 wire row then
           (let ycenter = y_start wire + 16;
                text2 = ''FLAG '' @ str_int (int_of_float (fst row)) @ '' '' @ str_int ycenter
                        @ '' 0'' @ [CHR 0x0A];
                asc_lines1 = asc_lines @ [text2]
            in Inl (KeyError ''y_center''))
         else Inr asc_lines)
      else Inr asc_lines)"

definition place_ground ::
  "frame \<Rightarrow> Wire list \<Rightarrow> Wire list \<Rightarrow> string list \<Rightarrow> error + string list"
where
  "place_ground data ws wh asc_lines =
     fold_err (\<lambda>row. fold_err (ground_on_wire wh row) ws) data asc_lines"

definition wire_text :: "Wire \<Rightarrow> string" where
  "wire_text wire =
     ''WIRE '' @ str_int (x_start wire) @ '' '' @ str_int (y_start wire) @ '' ''
     @ str_int (x_end wire) @ '' '' @ str_int (y_end wire) @ [CHR 0x0A]"

text \<open>The loop that fills \<open>no_duplicates\<close>.\<close>

definition no_duplicates :: "string list \<Rightarrow> string list" where
  "no_duplicates asc_lines =
     fold (\<lambda>object acc. if object \<in> set acc then acc else acc @ [object]) asc_lines []"

definition generate_asc_content ::
  "frame \<Rightarrow> frame \<Rightarrow> frame \<Rightarrow> frame \<Rightarrow> frame \<Rightarrow> frame \<Rightarrow> Wire list \<Rightarrow> Wire list \<Rightarrow> Wire list
   \<Rightarrow> error + string"
where
  "generate_asc_content data_res data_vol data_vol_ac data_cap data_gnd data_ind ws wh wv =
     (let a0 = [''Version 4'', ''SHEET 1 880 680''];
          a1 = place_kind resistor data_res ws wh wv a0;
          a2 = place_kind voltage data_vol ws wh wv a1;
          a3 = place_kind voltage data_vol_ac ws wh wv a2;
          a4 = place_kind capacitor data_cap ws wh wv a3
      in case place_ground data_gnd ws wh a4 of
           Inl e \<Rightarrow> Inl e
         | Inr a5 \<Rightarrow>
             (let a6 = place_kind inductor data_ind ws wh wv a5;
                  a7 = a6 @ map wire_text ws
              in Inr (concat (no_duplicates a7))))"

text \<open>The detections of one image, one frame per class.\<close>

record detections =
  data_ind :: frame
  data_gnd :: frame
  data_cap :: frame
  data_vol_ac :: frame
  data_vol :: frame
  data_res :: frame
  data_junction :: frame

text \<open>\<open>_process_image_to_asc\<close>, behind the detector.\<close>

definition asc_of_detections :: "detections \<Rightarrow> error + string" where
  "asc_of_detections d =
     (case process_junctions (data_junction d) of (ws, wh, wv) \<Rightarrow>
        generate_asc_content (data_res d) (data_vol d) (data_vol_ac d) (data_cap d)
          (data_gnd d) (data_ind d) ws wh wv)"

section \<open>Scratch files (\<open>ASCParsingService\<close>, \<open>process_image\<close>)\<close>

text \<open>
  The file system is a map from paths to contents. The path of a temporary file is
  chosen by the operating system and is a parameter here.
\<close>

type_synonym filesystem = "string \<Rightarrow> string option"

text \<open>
  What the operating system does with \<open>NamedTemporaryFile(delete=False)\<close> and the
  \<open>write\<close> in its \<open>with\<close> block is outside the program. It refuses to create the file;
  or it creates the file and the write fails, with some part of the bytes in the file;
  or the bytes are stored.
\<close>

datatype storage = Refused | Full string | Stored

text \<open>
  The \<open>with\<close> block that comes before \<open>try\<close>. An exception raised in it leaves the
  function at once; the file, made with \<open>delete=False\<close>, stays where it is.
\<close>

definition write_temp ::
  "storage \<Rightarrow> string \<Rightarrow> string \<Rightarrow> filesystem \<Rightarrow> (error + unit) \<times> filesystem"
where
  "write_temp st path file_content fs =
     (case st of
        Refused \<Rightarrow> (Inl IOError, fs)
      | Full part \<Rightarrow> (Inl IOError, fs(path \<mapsto> part))
      | Stored \<Rightarrow> (Inr (), fs(path \<mapsto> file_content)))"










section \<open>Predicates of the claims\<close>

subsection \<open>Lines the parser cannot read\<close>

text \<open>The test of the outer loop for a symbol line.\<close>

definition is_symbol_line :: "string \<Rightarrow> bool" where
  "is_symbol_line l = startswith (strip l) ''SYMBOL''"

text \<open>A token that \<open>int()\<close> accepts.\<close>

definition is_int :: "string \<Rightarrow> bool" where
  "is_int s = (parse_signed (strip s) \<noteq> None)"

text \<open>
  The tokens \<open>ts\<close> of a keyword line are short of the \<open>n\<close> tokens the keyword needs, or
  one of the tokens at the numeric positions \<open>idxs\<close> is there and is not an integer.
\<close>

definition bad_tokens :: "string list \<Rightarrow> nat \<Rightarrow> nat list \<Rightarrow> bool" where
  "bad_tokens ts n idxs =
     (length ts < n \<or> (\<exists>i \<in> set idxs. i < length ts \<and> \<not> is_int (ts ! i)))"

text \<open>
  A line of the outer loop that is malformed: it starts with one of the five keywords
  the loop knows and its tokens are bad for that keyword.
\<close>

definition line_malformed :: "string \<Rightarrow> bool" where
  "line_malformed l =
     (let line = strip l; ts = split line in
      if startswith line ''Version'' then bad_tokens ts 2 []
      else if startswith line ''SHEET'' then bad_tokens ts 4 [1, 2, 3]
      else if startswith line ''SYMBOL'' then bad_tokens ts 5 [2, 3]
      else if startswith line ''WIRE'' then bad_tokens ts 5 [1, 2, 3, 4]
      else if startswith line ''FLAG'' then bad_tokens ts 4 [1, 2]
      else False)"

definition attr_malformed :: "string \<Rightarrow> bool" where
  "attr_malformed l = bad_tokens (split (strip l)) 2 []"

text \<open>
  Some line of the text is malformed where the parser reads it. \<open>in_block\<close> says
  whether the lines so far end in a symbol line followed by attribute lines only: there
  an attribute line is read, elsewhere it is passed over.
\<close>

fun has_malformed :: "bool \<Rightarrow> string list \<Rightarrow> bool" where
  "has_malformed in_block [] = False"
| "has_malformed in_block (l # ls) =
     (if is_symattr l then (in_block \<and> attr_malformed l) \<or> has_malformed in_block ls
      else line_malformed l \<or> has_malformed (is_symbol_line l) ls)"

subsection \<open>Detections on wires\<close>

text \<open>The containment test that the placer applies to a detection and a wire.\<close>

definition attaches :: "kind \<Rightarrow> Wire list \<Rightarrow> Wire list \<Rightarrow> real \<times> real \<Rightarrow> Wire \<Rightarrow> bool" where
  "attaches k wv wh row wire =
     (if wire \<in> set wv then vertical_test (tol_v k) wire row
      else wire \<in> set wh \<and> horizontal_test (tol_h k) wire row)"

text \<open>The entry written for a detection on a wire, with the instance number \<open>n\<close>.\<close>

definition placement_text :: "kind \<Rightarrow> Wire list \<Rightarrow> real \<times> real \<Rightarrow> Wire \<Rightarrow> nat \<Rightarrow> string" where
  "placement_text k wv row wire n =
     (if wire \<in> set wv
      then symbol_text (symbol k) (x_start wire - grid_off k) (int_of_float (snd row) - shift k)
             ''R0'' (letter k) n
      else symbol_text (symbol k) (int_of_float (fst row) - shift k) (y_start wire - grid_off k)
             (rot_h k) (letter k) n)"

text \<open>All pairs of a detection and a wire it attaches to: detections first, then wires.\<close>

definition attachments ::
  "kind \<Rightarrow> Wire list \<Rightarrow> Wire list \<Rightarrow> frame \<Rightarrow> Wire list \<Rightarrow> ((real \<times> real) \<times> Wire) list"
where
  "attachments k wv wh data ws =
     concat (map (\<lambda>row. map (Pair row) (filter (attaches k wv wh row) ws)) data)"

section \<open>Evaluation rules\<close>

lemmas text_defs = strip_def is_space_def startswith_def split_def item_def bind_def
  int_item_def py_int_def parse_signed_def parse_nat_def is_digit_def digit_val_def

lemmas parser_defs = parse_lines_def ASCParser_init_def to_json_def
  remove_duplicate_wires_def remove_duplicate_components_def component_key_def wire_key_def
  parse_version_line_def parse_sheet_line_def parse_symbol_line_def parse_wire_line_def
  parse_flag_line_def add_symattr_to_component_def is_symattr_def dict_get_def
  tuple_min_def tuple_max_def tuple_less_def

lemma int_of_float_of_int [simp]: "int_of_float (of_int k) = k"
  by (simp add: int_of_float_def)

lemma int_of_float_numeral [simp]:
  "int_of_float (numeral k) = numeral k" "int_of_float 0 = 0" "int_of_float 1 = 1"
  by (simp_all add: int_of_float_def)

section \<open>Wires: orientation and starting point\<close>

lemma classify_angle_horizontal:
  "classify_angle a = ''h'' \<longleftrightarrow> a \<le> 10 \<or> 350 < a \<or> (170 \<le> a \<and> a < 190)"
  by (auto simp: classify_angle_def Let_def)

lemma classify_angle_vertical:
  "classify_angle a = ''v'' \<longleftrightarrow> (80 < a \<and> a < 100) \<or> (260 < a \<and> a < 280)"
  by (auto simp: classify_angle_def Let_def)

lemma slope_of_horizontal_example: "slope_as_angle 0 0 112 0 = 180"
  by (simp add: slope_as_angle_def atan2_def degrees_def fmod_def)

lemma slope_of_vertical_example: "slope_as_angle 112 0 112 208 = 270"
  by (simp add: slope_as_angle_def atan2_def degrees_def fmod_def)

lemma Wire_init_horizontal_example:
  "Wire_init 0 0 112 0 =
     \<lparr>x_start = 0, y_start = 0, x_end = 112, y_end = 0, orientation = ''h''\<rparr>"
  by (simp add: Wire_init_def select_starting_point_def test_if_wire_is_valid_def
      slope_of_horizontal_example classify_angle_def)

text \<open>
  The exact slope function of the model is one choice of the angle.
\<close>

lemma test_if_wire_is_valid_exact:
  "test_if_wire_is_valid xs ys xe ye =
     test_if_wire_is_valid_with (\<lambda>dy dx. fmod (degrees (atan2 dy dx)) 360) xs ys xe ye"
  by (simp add: test_if_wire_is_valid_def test_if_wire_is_valid_with_def slope_as_angle_def)




section \<open>A wire between two junctions at the same distance from the origin\<close>

lemma arctan_sixth: "0 < arctan (1 / 6) \<and> arctan (1 / 6) * 180 / pi \<le> 10"
proof -
  let ?a = "arctan (1 / 6 :: real)"
  have a2: "?a + ?a = arctan (12 / 35)"
    using arctan_add [of "1 / 6" "1 / 6"] by simp
  have a4: "arctan (12 / 35) + arctan (12 / 35) = arctan (840 / 1081 :: real)"
    using arctan_add [of "12 / 35 :: real" "12 / 35"] by simp
  have a8: "arctan (840 / 1081) + arctan (840 / 1081) = arctan (1816080 / 462961 :: real)"
    using arctan_add [of "840 / 1081 :: real" "840 / 1081"] by simp
  have le: "arctan (1816080 / 462961 :: real) \<le> arctan 6"
    by (simp add: arctan_le_iff)
  have inv: "?a = pi / 2 - arctan 6"
    using arctan_inverse [of "6 :: real"] by simp
  have "9 * ?a \<le> pi / 2"
    using a2 a4 a8 le inv by linarith
  moreover have "0 < ?a"
    using arctan_less_iff [of 0 "1 / 6"] by simp
  ultimately show ?thesis
    using pi_gt_zero by (simp add: field_simps)
qed

lemma slope_of_tie_example: "classify_angle (slope_as_angle 0 1184 384 1120) = ''h''"
proof -
  define t where "t = arctan (1 / 6) * 180 / pi"
  have t: "0 < t" "t \<le> 10"
    using arctan_sixth pi_gt_zero by (simp_all add: t_def)
  have a: "atan2 64 (- 384) = pi - arctan (1 / 6)"
    by (simp add: atan2_def arctan_minus)
  have d: "degrees (atan2 64 (- 384)) = 180 - t"
    by (simp add: a degrees_def t_def field_simps)
  have f: "\<lfloor>(180 - t) / 360\<rfloor> = 0"
    using t by (simp add: floor_eq_iff)
  have "slope_as_angle 0 1184 384 1120 = 180 - t"
    using d f by (simp add: slope_as_angle_def fmod_def)
  then show ?thesis
    using t by (simp add: classify_angle_def)
qed

lemma snap16_examples [simp]:
  "snap16 0 = 0" "snap16 112 = 112" "snap16 208 = 208"
  "snap16 384 = 384" "snap16 1120 = 1120" "snap16 1184 = 1184"
  by (simp_all add: snap16_def fmod_def)

lemma Wire_init_tie:
  "Wire_init 384 1120 0 1184 =
     \<lparr>x_start = 0, y_start = 1184, x_end = 384, y_end = 1120, orientation = ''h''\<rparr>"
  by (simp add: Wire_init_def select_starting_point_def test_if_wire_is_valid_def
      slope_of_tie_example)

lemma aligned_junctions_tie:
  "aligned_junctions [(384, 1120), (0, 1184)] = [(384, 1120), (0, 1184)]"
  by (simp add: aligned_junctions_def align_junctions_def align_row_def align_pair_def
      snap_junctions_def enumerate_eq_zip upt_rec)

lemma process_junctions_tie:
  "process_junctions [(384, 1120), (0, 1184)]
     = ([Wire_init 384 1120 0 1184], [Wire_init 384 1120 0 1184], [])"
  by (simp add: process_junctions_def aligned_junctions_tie synthesize_wires_def
      wire_pair_def upt_rec Let_def Wire_init_tie)

text \<open>
  C4, as the claim states it, fails: the junctions \<open>(384, 1120)\<close> and \<open>(0, 1184)\<close> lie on
  the grid and are equally far from the origin (\<open>384\<^sup>2 + 1120\<^sup>2 = 1184\<^sup>2\<close>). The wire
  synthesized between them is horizontal, and its start point is the second of them.
\<close>

theorem tie_swaps_endpoints_counterexample:
  "origin_distance 384 1120 = origin_distance 0 1184
   \<and> fst (process_junctions [(384, 1120), (0, 1184)])
       = [\<lparr>x_start = 0, y_start = 1184, x_end = 384, y_end = 1120, orientation = ''h''\<rparr>]"
  by (simp add: process_junctions_tie Wire_init_tie origin_distance_def)

text \<open>
  C4, amended. For coordinates below \<open>2 ^ 25\<close> in absolute value, the start point of a
  wire is never farther from the origin than its end point. An endpoint that is strictly
  nearer than the other one is the start point; when the two distances are equal the
  second input endpoint is the start point and the first one the end point.
\<close>

theorem wire_start_nearer_origin:
  assumes "\<bar>a\<bar> < 2 ^ 25" and "\<bar>b\<bar> < 2 ^ 25" and "\<bar>c\<bar> < 2 ^ 25" and "\<bar>d\<bar> < 2 ^ 25"
  shows
  "origin_distance (x_start (Wire_init a b c d)) (y_start (Wire_init a b c d))
     \<le> origin_distance (x_end (Wire_init a b c d)) (y_end (Wire_init a b c d))
   \<and> (origin_distance a b < origin_distance c d \<longrightarrow>
        x_start (Wire_init a b c d) = a \<and> y_start (Wire_init a b c d) = b
        \<and> x_end (Wire_init a b c d) = c \<and> y_end (Wire_init a b c d) = d)
   \<and> (origin_distance c d < origin_distance a b \<longrightarrow>
        x_start (Wire_init a b c d) = c \<and> y_start (Wire_init a b c d) = d
        \<and> x_end (Wire_init a b c d) = a \<and> y_end (Wire_init a b c d) = b)
   \<and> (origin_distance a b = origin_distance c d \<longrightarrow>
        x_start (Wire_init a b c d) = c \<and> y_start (Wire_init a b c d) = d
        \<and> x_end (Wire_init a b c d) = a \<and> y_end (Wire_init a b c d) = b)"
  by (simp add: Wire_init_def select_starting_point_def origin_distance_def)

theorem wire_start_nearer_origin_witness:
  "origin_distance 384 1120 = origin_distance 0 1184
   \<and> origin_distance 0 0 < origin_distance 112 0
   \<and> origin_distance 0 16 < origin_distance 112 0
   \<and> x_start (Wire_init 384 1120 0 1184) = 0 \<and> y_start (Wire_init 384 1120 0 1184) = 1184
   \<and> x_end (Wire_init 384 1120 0 1184) = 384 \<and> y_end (Wire_init 384 1120 0 1184) = 1120
   \<and> x_start (Wire_init 0 0 112 0) = 0 \<and> x_end (Wire_init 0 0 112 0) = 112
   \<and> x_start (Wire_init 112 0 0 16) = 0 \<and> y_start (Wire_init 112 0 0 16) = 16"
  using wire_start_nearer_origin [of 384 1120 0 1184] wire_start_nearer_origin [of 0 0 112 0]
    wire_start_nearer_origin [of 112 0 0 16]
  by (simp add: origin_distance_def)

section \<open>Reconstruction: evaluation on small inputs\<close>

lemma aligned_junctions_two:
  "aligned_junctions [(0, 0), (112, 0)] = [(0, 0), (112, 0)]"
  by (simp add: aligned_junctions_def align_junctions_def align_row_def align_pair_def
      snap_junctions_def enumerate_eq_zip upt_rec)

lemma process_junctions_two:
  "process_junctions [(0, 0), (112, 0)]
     = ([Wire_init 0 0 112 0], [Wire_init 0 0 112 0], [])"
  by (simp add: process_junctions_def aligned_junctions_two synthesize_wires_def
      wire_pair_def upt_rec Let_def Wire_init_horizontal_example)

section \<open>The ground loop\<close>

lemma fold_err_raises:
  assumes "x \<in> set xs" and "\<And>s. f x s = Inl e"
    and "\<And>y s. y \<in> set xs \<Longrightarrow> f y s = Inl e \<or> f y s = Inr s"
  shows "fold_err f xs s = Inl e"
  using assms
proof (induction xs arbitrary: s)
  case Nil
  then show ?case by simp
next
  case (Cons y ys)
  show ?case
  proof (cases "f y s")
    case (Inl e')
    with Cons.prems(3) [of y s] show ?thesis by simp
  next
    case (Inr s')
    with Cons.prems(3) [of y s] have same: "s' = s" by simp
    from Inr Cons.prems(2) have "x \<noteq> y" by auto
    with Cons.prems(1) have "x \<in> set ys" by simp
    then have "fold_err f ys s = Inl e"
      using Cons.IH Cons.prems(2,3) by simp
    with Inr same show ?thesis by simp
  qed
qed

lemma fold_err_unchanged:
  "(\<And>y s. y \<in> set xs \<Longrightarrow> f y s = Inr s) \<Longrightarrow> fold_err f xs s = Inr s"
  by (induction xs arbitrary: s) auto

lemma ground_on_wire_cases:
  "ground_on_wire wh row wire a =
     (if wire \<in> set wh \<and> horizontal_test 200 wire row
      then Inl (KeyError ''y_center'') else Inr a)"
  by (simp add: ground_on_wire_def Let_def)

lemma ground_row_cases:
  "fold_err (ground_on_wire wh row) ws s =
     (if \<exists>w \<in> set ws. w \<in> set wh \<and> horizontal_test 200 w row
      then Inl (KeyError ''y_center'') else Inr s)"
proof (cases "\<exists>w \<in> set ws. w \<in> set wh \<and> horizontal_test 200 w row")
  case True
  then obtain w where w: "w \<in> set ws" "w \<in> set wh \<and> horizontal_test 200 w row"
    by blast
  have "fold_err (ground_on_wire wh row) ws s = Inl (KeyError ''y_center'')"
    by (rule fold_err_raises [where x = w]) (use w in \<open>auto simp: ground_on_wire_cases\<close>)
  with True show ?thesis by simp
next
  case False
  have "fold_err (ground_on_wire wh row) ws s = Inr s"
    by (rule fold_err_unchanged) (use False in \<open>auto simp: ground_on_wire_cases\<close>)
  with False show ?thesis by simp
qed

text \<open>
  Every run of the ground loop in which some ground detection lies on some horizontal
  wire ends in the \<open>KeyError\<close>; a run with no such pair adds nothing.
\<close>

lemma place_ground_cases:
  "place_ground data ws wh a =
     (if \<exists>row \<in> set data. \<exists>w \<in> set ws. w \<in> set wh \<and> horizontal_test 200 w row
      then Inl (KeyError ''y_center'') else Inr a)"
proof (cases "\<exists>row \<in> set data. \<exists>w \<in> set ws. w \<in> set wh \<and> horizontal_test 200 w row")
  case True
  then obtain row where r: "row \<in> set data"
      "\<exists>w \<in> set ws. w \<in> set wh \<and> horizontal_test 200 w row"
    by blast
  have "fold_err (\<lambda>row. fold_err (ground_on_wire wh row) ws) data a
          = Inl (KeyError ''y_center'')"
    by (rule fold_err_raises [where x = row]) (use r in \<open>auto simp: ground_row_cases\<close>)
  with True show ?thesis by (simp add: place_ground_def)
next
  case False
  have "fold_err (\<lambda>row. fold_err (ground_on_wire wh row) ws) data a = Inr a"
    by (rule fold_err_unchanged) (use False in \<open>auto simp: ground_row_cases\<close>)
  with False show ?thesis by (simp add: place_ground_def)
qed

text \<open>
  C7. The claim: a ground detection that attaches to a wire yields a flag with net name
  \<open>0\<close> and a connector wire, and no error. The reconstruction is run here on two
  junctions at \<open>(0, 0)\<close> and \<open>(112, 0)\<close>, which give one horizontal wire, and one ground
  detection at \<open>(50, 10)\<close> under it: the run raises \<open>KeyError\<close> for the column
  \<open>y_center\<close> and returns no text.
\<close>

theorem ground_attachment_raises:
  "asc_of_detections
     \<lparr>data_ind = [], data_gnd = [(50, 10)], data_cap = [], data_vol_ac = [], data_vol = [],
      data_res = [], data_junction = [(0, 0), (112, 0)]\<rparr>
   = Inl (KeyError ''y_center'')"
  by (simp add: asc_of_detections_def process_junctions_two Wire_init_horizontal_example
      generate_asc_content_def place_kind_def place_ground_def ground_on_wire_def
      horizontal_test_def)

theorem ground_attachment_raises_witness:
  "\<not> (\<exists>text. asc_of_detections
     \<lparr>data_ind = [], data_gnd = [(50, 10)], data_cap = [], data_vol_ac = [], data_vol = [],
      data_res = [], data_junction = [(0, 0), (112, 0)]\<rparr> = Inr text)"
  using ground_attachment_raises by simp

section \<open>The header of the generated text\<close>

text \<open>
  C9. The claim: the generated text begins with the header lines \<open>Version 4\<close> and
  \<open>SHEET 1 880 680\<close>. The two header strings are appended without a line end, unlike
  every other entry, and the entries are joined with nothing between them. For the empty
  detection set the whole output is the single unterminated line
  \<open>Version 4SHEET 1 880 680\<close>; the parser of the repository reads it as version
  \<open>4SHEET\<close> with no sheet.
\<close>

theorem header_lines_run_together:
  "asc_of_detections
     \<lparr>data_ind = [], data_gnd = [], data_cap = [], data_vol_ac = [], data_vol = [],
      data_res = [], data_junction = []\<rparr>
     = Inr ''Version 4SHEET 1 880 680''
   \<and> readlines ''Version 4SHEET 1 880 680'' = [''Version 4SHEET 1 880 680'']
   \<and> parse ''Version 4SHEET 1 880 680''
     = Inr \<lparr>cd_version = Some ''4SHEET'', cd_sheet = None, cd_components = [],
            cd_wires = [], cd_flags = []\<rparr>"
  by (simp add: asc_of_detections_def process_junctions_def aligned_junctions_def
      snap_junctions_def align_junctions_def synthesize_wires_def
      generate_asc_content_def place_kind_def place_ground_def no_duplicates_def
      parse_def readlines_def parse_loop.simps(2) text_defs parser_defs)

theorem header_lines_run_together_witness:
  "length (readlines ''Version 4SHEET 1 880 680'') = 1"
  using header_lines_run_together by simp

section \<open>Scratch files\<close>

lemma write_temp_Stored [simp]: "write_temp Stored p c fs = (Inr (), fs(p \<mapsto> c))"
  by (simp add: write_temp_def)

lemma write_temp_Full [simp]: "write_temp (Full part) p c fs = (Inl IOError, fs(p \<mapsto> part))"
  by (simp add: write_temp_def)

lemma write_temp_Refused [simp]: "write_temp Refused p c fs = (Inl IOError, fs)"
  by (simp add: write_temp_def)





section \<open>The parser: attribute lines outside a symbol block\<close>

lemma startswith_iff: "startswith s p \<longleftrightarrow> (\<exists>r. s = p @ r)"
  unfolding startswith_def
  by (metis append_eq_conv_conj append_take_drop_id)

lemma symattr_not_keyword:
  assumes "startswith s ''SYMATTR''"
  shows "\<not> startswith s ''Version''" "\<not> startswith s ''SHEET''" "\<not> startswith s ''SYMBOL''"
    "\<not> startswith s ''WIRE''" "\<not> startswith s ''FLAG''"
proof -
  from assms obtain r where "s = ''SYMATTR'' @ r" by (auto simp: startswith_iff)
  then show "\<not> startswith s ''Version''" "\<not> startswith s ''SHEET''" "\<not> startswith s ''SYMBOL''"
    "\<not> startswith s ''WIRE''" "\<not> startswith s ''FLAG''"
    by (simp_all add: startswith_def)
qed

lemma parse_loop_skip_symattr: "is_symattr l \<Longrightarrow> parse_loop st (l # ls) = parse_loop st ls"
  using symattr_not_keyword[of "strip l"]
  by (simp add: parse_loop.simps(2) is_symattr_def Let_def)

lemma parse_loop_skip_symattrs:
  "\<forall>a \<in> set attrs. is_symattr a \<Longrightarrow> parse_loop st (attrs @ ls) = parse_loop st ls"
  by (induction attrs) (simp_all add: parse_loop_skip_symattr)

lemma last_dropWhile: "xs \<noteq> [] \<Longrightarrow> \<not> P (last xs) \<Longrightarrow> dropWhile P xs \<noteq> [] \<and> last (dropWhile P xs) = last xs"
  by (induction xs) (auto split: if_splits)

lemma parse_loop_append:
  "pre = [] \<or> (\<not> is_symattr (last pre) \<and> \<not> is_symbol_line (last pre)) \<Longrightarrow>
   parse_loop st (pre @ rest) = (case parse_loop st pre of Inl e \<Rightarrow> Inl e | Inr st' \<Rightarrow> parse_loop st' rest)"
proof (induction st pre rule: parse_loop.induct)
  case (1 st)
  then show ?case by simp
next
  case (2 st l ls)
  let ?line = "strip l"
  have tail: "ls = [] \<or> (\<not> is_symattr (last ls) \<and> \<not> is_symbol_line (last ls))"
    using "2.prems" by (auto split: if_splits)
  show ?case
  proof (cases "startswith ?line ''Version''")
    case True
    then show ?thesis using "2.IH"(1)[OF refl True _ tail]
      by (auto simp: parse_loop.simps(2) Let_def split: sum.splits)
  next
    case nv: False
    show ?thesis
    proof (cases "startswith ?line ''SHEET''")
      case True
      then show ?thesis using "2.IH"(2)[OF refl nv True _ tail] nv
        by (auto simp: parse_loop.simps(2) Let_def split: sum.splits)
    next
      case ns: False
      show ?thesis
      proof (cases "startswith ?line ''SYMBOL''")
        case True
        then have "is_symbol_line l" by (simp add: is_symbol_line_def)
        with "2.prems" have ne: "ls \<noteq> []" by auto
        with tail have nl: "\<not> is_symattr (last ls)" "\<not> is_symbol_line (last ls)" by auto
        have tw: "takeWhile is_symattr (ls @ rest) = takeWhile is_symattr ls"
          using ne nl(1) by (intro takeWhile_append1[where x = "last ls"]) auto
        have dw: "dropWhile is_symattr (ls @ rest) = dropWhile is_symattr ls @ rest"
          using ne nl(1) by (intro dropWhile_append1[where x = "last ls"]) auto
        have tail': "dropWhile is_symattr ls = [] \<or> (\<not> is_symattr (last (dropWhile is_symattr ls)) \<and> \<not> is_symbol_line (last (dropWhile is_symattr ls)))"
          using last_dropWhile[of ls is_symattr] ne nl by simp
        show ?thesis using "2.IH"(3)[OF refl nv ns True _ _ _ tail'] nv ns True
          by (auto simp: parse_loop.simps(2) Let_def tw dw split: sum.splits prod.splits)
      next
        case nsy: False
        show ?thesis
        proof (cases "startswith ?line ''WIRE''")
          case True
          then show ?thesis using "2.IH"(4)[OF refl nv ns nsy True _ tail] nv ns nsy
            by (auto simp: parse_loop.simps(2) Let_def split: sum.splits)
        next
          case nw: False
          show ?thesis
          proof (cases "startswith ?line ''FLAG''")
            case True
            then show ?thesis using "2.IH"(5)[OF refl nv ns nsy nw True _ tail] nv ns nsy nw
              by (auto simp: parse_loop.simps(2) Let_def split: sum.splits)
          next
            case False
            then show ?thesis using "2.IH"(6)[OF refl nv ns nsy nw False tail] nv ns nsy nw
              by (auto simp: parse_loop.simps(2) Let_def split: sum.splits)
          qed
        qed
      qed
    qed
  qed
qed

text \<open>
  C10. An attribute line that follows neither a symbol line nor an attribute line of a
  symbol block is passed over: the parse of the text with the line equals the parse of
  the text without it, error or result. The line \<open>l\<close> stands behind \<open>pre\<close>, which is empty
  or ends in a line that is neither a symbol line nor an attribute line, and behind
  further attribute lines \<open>attrs\<close>, which are passed over for the same reason.
\<close>

theorem orphan_symattr_skipped:
  assumes "is_symattr l" and "\<forall>a \<in> set attrs. is_symattr a"
    and "pre = [] \<or> (\<not> is_symattr (last pre) \<and> \<not> is_symbol_line (last pre))"
  shows "parse_lines (pre @ attrs @ l # post) = parse_lines (pre @ attrs @ post)"
proof -
  have "parse_loop st (attrs @ l # post) = parse_loop st (attrs @ post)" for st
    using assms(1,2) by (simp add: parse_loop_skip_symattrs parse_loop_skip_symattr)
  then have "parse_loop ASCParser_init (pre @ attrs @ l # post) = parse_loop ASCParser_init (pre @ attrs @ post)"
    using assms(3) by (simp add: parse_loop_append split: sum.splits)
  then show ?thesis by (simp add: parse_lines_def)
qed


theorem orphan_symattr_skipped_witness:
  "is_symattr ''SYMATTR'' \<and> is_symattr ''  SYMATTR Value 5''
   \<and> \<not> is_symattr ''WIRE 0 0 1 0'' \<and> \<not> is_symbol_line ''WIRE 0 0 1 0''
   \<and> parse_lines [''WIRE 0 0 1 0'', ''  SYMATTR Value 5'', ''SYMATTR'', ''FLAG 0 0 0'']
     = parse_lines [''WIRE 0 0 1 0'', ''  SYMATTR Value 5'', ''FLAG 0 0 0'']
   \<and> parse_lines [''WIRE 0 0 1 0'', ''  SYMATTR Value 5'', ''SYMATTR'', ''FLAG 0 0 0'']
     = Inr \<lparr>cd_version = None, cd_sheet = None, cd_components = [],
            cd_wires = [\<lparr>x1 = 0, y1 = 0, x2 = 1, y2 = 0\<rparr>],
            cd_flags = [\<lparr>flag_x = 0, flag_y = 0, net_name = ''0''\<rparr>]\<rparr>"
  using orphan_symattr_skipped [where l = "''SYMATTR''" and attrs = "[''  SYMATTR Value 5'']"
      and pre = "[''WIRE 0 0 1 0'']" and post = "[''FLAG 0 0 0'']"]
  by (simp add: is_symbol_line_def parse_loop.simps(2) text_defs parser_defs)

end
